theory Spec2Isabelle
  imports Complex_Main
begin

section \<open>Python string primitives used by the label generator\<close>

text \<open>
  A Python \<open>str\<close> is modelled as a \<open>string\<close> holding its UTF-8 bytes. The three needles
  of the zone test and the three file suffixes are ASCII, and an ASCII byte never occurs
  inside a multi-byte UTF-8 sequence, so containment and suffix tests on the bytes agree
  with Python's tests on code points.
\<close>

fun startswith :: "string \<Rightarrow> string \<Rightarrow> bool" where
  "startswith s [] = True"
| "startswith [] (p # ps) = False"
| "startswith (c # cs) (p # ps) = (c = p \<and> startswith cs ps)"

text \<open>\<open>str_in n h\<close> is Python's \<open>n in h\<close> on strings: \<open>n\<close> occurs in \<open>h\<close> as a contiguous block.\<close>

fun str_in :: "string \<Rightarrow> string \<Rightarrow> bool" where
  "str_in n [] = (n = [])"
| "str_in n (c # cs) = (startswith (c # cs) n \<or> str_in n cs)"

definition endswith :: "string \<Rightarrow> string \<Rightarrow> bool" where
  "endswith s suf = startswith (rev s) (rev suf)"

text \<open>
  \<open>str.lower\<close> is a builtin with full Unicode case mapping; it is an external function of
  the model (a field of \<open>env\<close> below). \<open>ascii_lower\<close> is what it does on ASCII text.
\<close>

definition lower_char :: "char \<Rightarrow> char" where
  "lower_char c =
     (case map_of (zip ''ABCDEFGHIJKLMNOPQRSTUVWXYZ'' ''abcdefghijklmnopqrstuvwxyz'') c of
        Some d \<Rightarrow> d
      | None \<Rightarrow> c)"

definition ascii_lower :: "string \<Rightarrow> string" where
  "ascii_lower s = map lower_char s"

section \<open>Data model\<close>

datatype color = Red | Green | Blue | Yellow | Orange | Purple | Pink | Gray | LightGrey | White | Black

datatype error =
    UnsupportedFormat   \<comment> \<open>the \<open>ValueError\<close> of \<open>read_data\<close>\<close>
  | ZeroDivisionError
  | IndexError
  | KeyError            \<comment> \<open>the row has no column of that name\<close>
  | AttributeError      \<comment> \<open>\<open>.lower()\<close> on a value that is not a string\<close>
  | TypeError           \<comment> \<open>\<open>in\<close> on a value that is not a string\<close>
  | ReaderError         \<comment> \<open>\<open>pandas\<close> raised while reading the table\<close>
  | EncodeError         \<comment> \<open>\<open>qrcode\<close> raised in \<open>create_qr_code\<close>\<close>
  | SaveError           \<comment> \<open>\<open>qr_img.save\<close> raised\<close>
  | DrawImageError      \<comment> \<open>\<open>canvas.drawImage\<close> raised\<close>
  | PdfSaveError        \<comment> \<open>\<open>c.save()\<close> raised\<close>

text \<open>
  A value in a cell of the table: a string, or a value of another type (a number, \<open>NaN\<close> for
  an empty cell) given by the string \<open>str\<close> makes of it. \<open>str\<close> and string formatting are the
  only operations the program applies to both kinds.
\<close>

datatype cell = Text string | Other string

fun py_str :: "cell \<Rightarrow> string" where
  "py_str (Text s) = s"
| "py_str (Other s) = s"

text \<open>
  The table \<open>pandas\<close> returns: the rows in order, each with its index label and its cells by
  column name. The label is what \<open>df.iterrows()\<close> yields as \<open>idx\<close>: the row positions
  \<open>0, 1, 2, \<dots>\<close> by default, but the values of the first column of the file when its rows have
  one field more than its header. Labels are taken to be integers; a table labelled with
  strings or floats is outside the model.
\<close>

type_synonym row = "(string \<times> cell) list"

type_synonym table = "(int \<times> row) list"

text \<open>The list \<open>[aisle, ambient, color, qr_value]\<close> that \<open>generate_labels\<close> hands to \<open>draw_label\<close>.\<close>

record label_record =
  aisle :: cell
  ambient :: cell
  bg_color :: cell
  qr_value :: cell

text \<open>
  \<open>self.config\<close>. Lengths are in points (\<open>inch = 72\<close>). Python floats are modelled as reals:
  rounding is not modelled, so a sum or product here is the exact one where the program has
  the rounded one.
\<close>

record layout_config =
  page_width :: real
  page_height :: real
  label_width :: real
  label_height :: real
  columns :: int
  rows :: int
  top_margin :: real
  left_margin :: real
  h_gap :: real
  v_gap :: real
  header_font :: string
  header_size :: real
  content_font :: string
  content_size :: real
  section_ratios :: "real list"

definition inch :: real where
  "inch = 72"

definition default_config :: layout_config where
  "default_config =
     \<lparr>page_width = 8.5 * inch, page_height = 11 * inch,
      label_width = 2.625 * inch, label_height = 1 * inch,
      columns = 3, rows = 10,
      top_margin = 0.5 * inch, left_margin = 0.19 * inch,
      h_gap = 0.125 * inch, v_gap = 0.0 * inch,
      header_font = ''Helvetica-Bold'', header_size = 12,
      content_font = ''Helvetica-Bold'', content_size = 20,
      section_ratios = [1, 2, 1]\<rparr>"

record label_generator =
  config :: layout_config
  section_widths :: "real list"

text \<open>
  \<open>LabelGenerator.__init__\<close>, after the defaults have been merged with the user's dict, in
  exact arithmetic: ratios whose floating-point sum rounds to zero while their exact sum
  does not (or the reverse) take the other branch in the program.
\<close>

definition init :: "layout_config \<Rightarrow> error + label_generator" where
  "init cfg =
     (let total_ratio = sum_list (section_ratios cfg) in
      if section_ratios cfg \<noteq> [] \<and> total_ratio = 0 then Inl ZeroDivisionError
      else Inr \<lparr>config = cfg,
                section_widths = map (\<lambda>ratio. ratio / total_ratio * label_width cfg) (section_ratios cfg)\<rparr>)"

subsection \<open>The world outside the generator\<close>

datatype canvas_op =
    SetTitle string
  | SetStrokeColor color
  | SetLineWidth real
  | RoundRect real real real real real bool bool   \<comment> \<open>x, y, width, height, radius, stroke, fill\<close>
  | SetFillColor color
  | SetFont string real
  | DrawCentredString real real string
  | DrawImage string real real real real           \<comment> \<open>file, x, y, width, height\<close>
  | ShowPage
  | Save

datatype out_line =
    QrLine string                \<comment> \<open>\<open>print(qr_data)\<close>\<close>
  | Summary string int int       \<comment> \<open>output file, number of labels, number of pages\<close>

text \<open>
  The state the program acts on: the canvas (absent until \<open>canvas.Canvas\<close> is called; every
  operation is logged with the page it lands on), the files on disk, and standard output.
\<close>

record world =
  canvas_created :: bool
  page_no :: nat
  ops :: "(nat \<times> canvas_op) list"
  files :: "string set"
  stdout :: "out_line list"

text \<open>
  The libraries the program calls: which tables \<open>pandas\<close> reads (\<open>None\<close> when it raises),
  \<open>str.lower\<close>, and which calls of \<open>qrcode\<close>, \<open>PIL\<close> and \<open>reportlab\<close> succeed (\<open>pdf_writable\<close>: whether
  \<open>c.save()\<close> can write the output file).
\<close>

record env =
  read_csv :: "string \<Rightarrow> table option"
  read_excel :: "string \<Rightarrow> table option"
  str_lower :: "string \<Rightarrow> string"
  qr_encodable :: "string \<Rightarrow> bool"
  image_writable :: "string \<Rightarrow> bool"
  image_drawable :: "string \<Rightarrow> bool"
  pdf_writable :: "string \<Rightarrow> bool"

definition emit :: "canvas_op list \<Rightarrow> world \<Rightarrow> world" where
  "emit os w = w\<lparr>ops := ops w @ map (Pair (page_no w)) os\<rparr>"

definition showPage :: "world \<Rightarrow> world" where
  "showPage w = (emit [ShowPage] w)\<lparr>page_no := Suc (page_no w)\<rparr>"

definition new_canvas :: "world \<Rightarrow> world" where
  "new_canvas w = emit [SetTitle ''Generated Labels''] (w\<lparr>canvas_created := True, page_no := 0, ops := []\<rparr>)"

definition save_canvas :: "string \<Rightarrow> world \<Rightarrow> world" where
  "save_canvas output_pdf w = (emit [Save] w)\<lparr>files := insert output_pdf (files w)\<rparr>"

section \<open>The operations\<close>

subsection \<open>\<open>read_data\<close>\<close>

definition read_data :: "env \<Rightarrow> string \<Rightarrow> error + table" where
  "read_data E file_path =
     (if endswith file_path ''.csv'' then
        (case read_csv E file_path of None \<Rightarrow> Inl ReaderError | Some df \<Rightarrow> Inr df)
      else if endswith file_path ''.xlsx'' \<or> endswith file_path ''.xls'' then
        (case read_excel E file_path of None \<Rightarrow> Inl ReaderError | Some df \<Rightarrow> Inr df)
      else Inl UnsupportedFormat)"

subsection \<open>\<open>get_background_color\<close>\<close>

definition color_dict :: "(string \<times> color) list" where
  "color_dict =
     [(''red'', Red), (''green'', Green), (''blue'', Blue), (''yellow'', Yellow),
      (''orange'', Orange), (''purple'', Purple), (''pink'', Pink), (''gray'', Gray),
      (''lightgray'', LightGrey), (''white'', White)]"

definition get_background_color :: "env \<Rightarrow> string \<Rightarrow> color" where
  "get_background_color E color_name =
     (case map_of color_dict (str_lower E color_name) of Some c \<Rightarrow> c | None \<Rightarrow> White)"

subsection \<open>\<open>draw_label\<close>\<close>

text \<open>The header of the middle section (lines 166 to 176 of \<open>draw_label\<close>).\<close>

definition zone_header :: "string \<Rightarrow> string" where
  "zone_header qr_value' =
     (let header_text = ''AMBIENT'' in
      if str_in ''STOWAGE'' qr_value' then ''AMBIENT''
      else if str_in ''CHILLER'' qr_value' then ''CHILLED''
      else if str_in ''FROZEN'' qr_value' then ''FREEZER''
      else header_text)"

text \<open>The glyph string of line 200, as the bytes the source file holds.\<close>

definition arrow_glyph :: string where
  "arrow_glyph = [CHR 0xC3, CHR 0xA2, CHR 0xE2, CHR 0x80, CHR 0xA0, CHR 0xE2, CHR 0x80, CHR 0x98]"

definition temp_qr_file :: "label_record \<Rightarrow> string" where
  "temp_qr_file r = ''temp_qr_'' @ py_str (aisle r) @ ''_'' @ py_str (ambient r) @ ''.png''"

text \<open>
  The calls of \<open>draw_label\<close> in their order, with every place where it can raise: the section
  widths read by index, \<open>.lower()\<close> on the colour (line 123, reached from line 146), \<open>in\<close> on the
  code (line 171), and the three library calls of lines 206 to 222.
\<close>

definition draw_label ::
  "env \<Rightarrow> label_generator \<Rightarrow> real \<Rightarrow> real \<Rightarrow> label_record \<Rightarrow> world \<Rightarrow> (error + unit) \<times> world" where
  "draw_label E g x y r w =
     (case section_widths g of
        [] \<Rightarrow> (Inl IndexError, w)
      | [w0] \<Rightarrow> (Inl IndexError, w)
      | w0 # w1 # rest \<Rightarrow>
          let cfg = config g;
              lw = label_width cfg;
              lh = label_height cfg;
              sx0 = x;
              sx1 = x + w0;
              sx2 = x + w0 + w1;
              wa = emit
                [SetStrokeColor LightGrey,
                 SetLineWidth 0.5,
                 RoundRect x y lw lh 10 True False] w
          in (case bg_color r of
                Other v \<Rightarrow> (Inl AttributeError, wa)
              | Text color_name \<Rightarrow>
                  let wb = emit
                        [SetFillColor (get_background_color E color_name),
                         RoundRect sx1 y w1 lh 0 False True,
                         SetFillColor Black,
                         SetFont (header_font cfg) (header_size cfg),
                         DrawCentredString (sx0 + w0 / 2) (y + lh - header_size cfg - 4) ''AISLE'',
                         SetFont (content_font cfg) (content_size cfg),
                         DrawCentredString (sx0 + w0 / 2) (y + lh / 2 - content_size cfg / 2)
                           (py_str (aisle r))] wa
                  in (case qr_value r of
                        Other v \<Rightarrow> (Inl TypeError, wb)
                      | Text code \<Rightarrow>
                          let wc = emit
                                [SetFont (header_font cfg) (header_size cfg),
                                 DrawCentredString (sx1 + w1 / 2) (y + lh - header_size cfg - 4)
                                   (zone_header code),
                                 SetFont (content_font cfg) (content_size cfg),
                                 DrawCentredString (sx1 + w1 / 2) (y + lh / 2 - content_size cfg / 2)
                                   (py_str (ambient r))] wb
                          in (case rest of
                                [] \<Rightarrow> (Inl IndexError, wc)
                              | w2 # _ \<Rightarrow>
                                  let section_center_x = sx2 + w2 / 2;
                                      wd = emit
                                        [SetFont (content_font cfg) 14,
                                         DrawCentredString section_center_x (y + lh - 20) arrow_glyph] wc;
                                      we = wd\<lparr>stdout := stdout wd @ [QrLine code]\<rparr>
                                  in if \<not> qr_encodable E code then (Inl EncodeError, we)
                                     else
                                       let qr_size = min (w2 * 0.8) (lh * 0.6);
                                           qr_x = section_center_x - qr_size / 2;
                                           qr_y = y + (lh - qr_size) / 2 - 5;
                                           tmp = temp_qr_file r
                                       in if \<not> image_writable E tmp then (Inl SaveError, we)
                                          else
                                            let wf = we\<lparr>files := insert tmp (files we)\<rparr>
                                            in if \<not> image_drawable E tmp then (Inl DrawImageError, wf)
                                               else
                                                 let wg = emit [DrawImage tmp qr_x qr_y qr_size qr_size] wf
                                                 in (Inr (), wg\<lparr>files := files wg - {tmp}\<rparr>)))))"

subsection \<open>\<open>generate_labels\<close>\<close>

record placement =
  row_num :: int
  col_num :: int
  label_x :: real
  label_y :: real

text \<open>Lines 285 to 298: where the label with index \<open>idx\<close> goes on its page.\<close>

definition grid_position :: "layout_config \<Rightarrow> int \<Rightarrow> error + placement" where
  "grid_position cfg idx =
     (let labels_per_page = columns cfg * rows cfg in
      if labels_per_page = 0 then Inl ZeroDivisionError
      else
        let position_on_page = idx mod labels_per_page in
        if columns cfg = 0 then Inl ZeroDivisionError
        else
          let r = position_on_page div columns cfg;
              c = position_on_page mod columns cfg
          in Inr \<lparr>row_num = r, col_num = c,
                  label_x = left_margin cfg + of_int c * (label_width cfg + h_gap cfg),
                  label_y = page_height cfg - top_margin cfg
                            - of_int (r + 1) * label_height cfg - of_int r * v_gap cfg\<rparr>)"

text \<open>Lines 301 to 304: the four cells of the row, read by column name in this order.\<close>

definition row_fields :: "row \<Rightarrow> error + label_record" where
  "row_fields row =
     (case map_of row ''aisle'' of
        None \<Rightarrow> Inl KeyError
      | Some a \<Rightarrow>
          (case map_of row ''ambient'' of
             None \<Rightarrow> Inl KeyError
           | Some b \<Rightarrow>
               (case map_of row ''color'' of
                  None \<Rightarrow> Inl KeyError
                | Some c \<Rightarrow>
                    (case map_of row ''qr_value'' of
                       None \<Rightarrow> Inl KeyError
                     | Some q \<Rightarrow> Inr \<lparr>aisle = a, ambient = b, bg_color = c, qr_value = q\<rparr>))))"

text \<open>
  The loop of lines 283 to 307 over \<open>df.iterrows()\<close>: \<open>idx\<close> is the index label of the row, not a
  counter of the loop.
\<close>

fun label_loop :: "env \<Rightarrow> label_generator \<Rightarrow> table \<Rightarrow> world \<Rightarrow> (error + unit) \<times> world" where
  "label_loop E g [] w = (Inr (), w)"
| "label_loop E g ((idx, row) # df) w =
     (case grid_position (config g) idx of
        Inl e \<Rightarrow> (Inl e, w)
      | Inr p \<Rightarrow>
          let position_on_page = idx mod (columns (config g) * rows (config g));
              w1 = (if position_on_page = 0 \<and> idx > 0 then showPage w else w)
          in (case row_fields row of
                Inl e \<Rightarrow> (Inl e, w1)
              | Inr r \<Rightarrow>
                  (case draw_label E g (label_x p) (label_y p) r w1 of
                     (Inl e, w2) \<Rightarrow> (Inl e, w2)
                   | (Inr u, w2) \<Rightarrow> label_loop E g df w2)))"

text \<open>The page count of the summary line (line 311).\<close>

definition reported_pages :: "int \<Rightarrow> int \<Rightarrow> error + int" where
  "reported_pages total_labels labels_per_page =
     (if labels_per_page = 0 then Inl ZeroDivisionError
      else Inr ((total_labels - 1) div labels_per_page + 1))"

definition generate_labels ::
  "env \<Rightarrow> label_generator \<Rightarrow> string \<Rightarrow> string \<Rightarrow> world \<Rightarrow> (error + unit) \<times> world" where
  "generate_labels E g data_file output_pdf w =
     (case read_data E data_file of
        Inl e \<Rightarrow> (Inl e, w)
      | Inr df \<Rightarrow>
          let total_labels = int (length df);
              w1 = new_canvas w;
              labels_per_page = columns (config g) * rows (config g)
          in (case label_loop E g df w1 of
                (Inl e, w2) \<Rightarrow> (Inl e, w2)
              | (Inr u, w2) \<Rightarrow>
                  if \<not> pdf_writable E output_pdf then (Inl PdfSaveError, w2)
                  else
                    let w3 = save_canvas output_pdf w2
                    in (case reported_pages total_labels labels_per_page of
                          Inl e \<Rightarrow> (Inl e, w3)
                        | Inr pages \<Rightarrow>
                            (Inr (), w3\<lparr>stdout := stdout w3 @ [Summary output_pdf total_labels pages]\<rparr>))))"

text \<open>The labels a canvas log holds: page, x and y of every border rectangle.\<close>

fun placement_of :: "nat \<times> canvas_op \<Rightarrow> (nat \<times> real \<times> real) option" where
  "placement_of (p, RoundRect x y w h r stroke fill) = (if stroke \<and> \<not> fill then Some (p, x, y) else None)"
| "placement_of (p, other) = None"

definition placements :: "(nat \<times> canvas_op) list \<Rightarrow> (nat \<times> real \<times> real) list" where
  "placements os = List.map_filter placement_of os"

text \<open>
  What the loop draws for a list of index labels when no call fails, starting on page \<open>pg\<close>:
  for each label the page (one further when line 292 breaks the page) and the corner.
\<close>

fun expected_placements :: "layout_config \<Rightarrow> nat \<Rightarrow> int list \<Rightarrow> (nat \<times> real \<times> real) list" where
  "expected_placements cfg pg [] = []"
| "expected_placements cfg pg (idx # idxs) =
     (case grid_position cfg idx of
        Inl e \<Rightarrow> []
      | Inr p \<Rightarrow>
          (let pg' = (if idx mod (columns cfg * rows cfg) = 0 \<and> idx > 0 then Suc pg else pg)
           in (pg', label_x p, label_y p) # expected_placements cfg pg' idxs))"




section \<open>Concrete inputs\<close>

text \<open>
  An environment in which every library call succeeds: both readers return \<open>table\<close>, and
  \<open>str.lower\<close> is \<open>ascii_lower\<close>.
\<close>

definition env_ok :: "table \<Rightarrow> env" where
  "env_ok tbl =
     \<lparr>read_csv = (\<lambda>_. Some tbl), read_excel = (\<lambda>_. Some tbl), str_lower = ascii_lower,
      qr_encodable = (\<lambda>_. True), image_writable = (\<lambda>_. True), image_drawable = (\<lambda>_. True),
      pdf_writable = (\<lambda>_. True)\<rparr>"

text \<open>The same environment, except that \<open>canvas.drawImage\<close> raises.\<close>

definition env_bad_image :: "table \<Rightarrow> env" where
  "env_bad_image tbl = (env_ok tbl)\<lparr>image_drawable := (\<lambda>_. False)\<rparr>"

definition rec_a :: label_record where
  "rec_a = \<lparr>aisle = Text ''A12'', ambient = Text ''B3'', bg_color = Text ''blue'',
            qr_value = Text ''STOWAGE-A12-B3''\<rparr>"

definition rec_b :: label_record where
  "rec_b = \<lparr>aisle = Text ''C5'', ambient = Text ''D1'', bg_color = Text ''red'',
            qr_value = Text ''CHILLER-C5-D1''\<rparr>"

text \<open>The row of a table that holds the four fields, and a table with the default labels.\<close>

definition row_of :: "label_record \<Rightarrow> row" where
  "row_of r =
     [(''aisle'', aisle r), (''ambient'', ambient r), (''color'', bg_color r),
      (''qr_value'', qr_value r)]"

definition default_index :: "row list \<Rightarrow> table" where
  "default_index rs = zip (map int [0..<length rs]) rs"

definition table_abc :: table where
  "table_abc = default_index [row_of rec_a, row_of rec_b, row_of rec_a]"

definition table_bbba :: table where
  "table_bbba = default_index [row_of rec_b, row_of rec_b, row_of rec_b, row_of rec_a]"

definition default_generator :: label_generator where
  "default_generator = \<lparr>config = default_config, section_widths = [47.25, 94.5, 47.25]\<rparr>"

text \<open>A sheet of two labels per page (two columns, one row), to see a page break early.\<close>

definition small_generator :: label_generator where
  "small_generator =
     \<lparr>config = default_config\<lparr>columns := 2, rows := 1\<rparr>, section_widths = [47.25, 94.5, 47.25]\<rparr>"

definition empty_world :: world where
  "empty_world = \<lparr>canvas_created = False, page_no = 0, ops = [], files = {}, stdout = []\<rparr>"

section \<open>The string primitives meet their specification\<close>

lemma startswith_iff: "startswith s p \<longleftrightarrow> (\<exists>q. s = p @ q)"
  by (induction s p rule: startswith.induct) auto

lemma str_in_iff: "str_in n h \<longleftrightarrow> (\<exists>p q. h = p @ n @ q)"
proof (induction h)
  case Nil
  then show ?case by auto
next
  case (Cons c cs)
  show ?case
  proof
    assume "str_in n (c # cs)"
    then consider "startswith (c # cs) n" | "str_in n cs" by auto
    then show "\<exists>p q. c # cs = p @ n @ q"
    proof cases
      case 1
      then obtain q where "c # cs = n @ q" by (auto simp: startswith_iff)
      then have "c # cs = [] @ n @ q" by simp
      then show ?thesis by blast
    next
      case 2
      then obtain p q where "cs = p @ n @ q" using Cons.IH by blast
      then have "c # cs = (c # p) @ n @ q" by simp
      then show ?thesis by blast
    qed
  next
    assume "\<exists>p q. c # cs = p @ n @ q"
    then obtain p q where pq: "c # cs = p @ n @ q" by blast
    show "str_in n (c # cs)"
    proof (cases p)
      case Nil
      then have "startswith (c # cs) n" using pq by (auto simp: startswith_iff)
      then show ?thesis by simp
    next
      case (Cons a p')
      then have "cs = p' @ n @ q" using pq by simp
      then have "str_in n cs" using Cons.IH by blast
      then show ?thesis by simp
    qed
  qed
qed

lemma endswith_iff: "endswith s suf \<longleftrightarrow> (\<exists>p. s = p @ suf)"
proof -
  have "endswith s suf \<longleftrightarrow> (\<exists>q. rev s = rev suf @ q)"
    by (simp add: endswith_def startswith_iff)
  also have "\<dots> \<longleftrightarrow> (\<exists>p. s = p @ suf)"
  proof
    assume "\<exists>q. rev s = rev suf @ q"
    then obtain q where "rev s = rev suf @ q" by blast
    then have "rev (rev s) = rev (rev suf @ q)" by simp
    then have "s = rev q @ suf" by simp
    then show "\<exists>p. s = p @ suf" by blast
  next
    assume "\<exists>p. s = p @ suf"
    then obtain p where "s = p @ suf" by blast
    then have "rev s = rev suf @ rev p" by simp
    then show "\<exists>q. rev s = rev suf @ q" by blast
  qed
  finally show ?thesis .
qed


section \<open>Zone classification\<close>

lemma zone_header_cases:
  "zone_header cv =
     (if (\<exists>p q. cv = p @ ''STOWAGE'' @ q) then ''AMBIENT''
      else if (\<exists>p q. cv = p @ ''CHILLER'' @ q) then ''CHILLED''
      else if (\<exists>p q. cv = p @ ''FROZEN'' @ q) then ''FREEZER''
      else ''AMBIENT'')"
  unfolding zone_header_def Let_def str_in_iff by (rule refl)

text \<open>
  Claim C1. For every text \<open>cv\<close> the header is decided by literal substring containment in
  the fixed order: \<open>STOWAGE\<close> gives \<open>AMBIENT\<close>; otherwise \<open>CHILLER\<close> gives \<open>CHILLED\<close>; otherwise
  \<open>FROZEN\<close> gives \<open>FREEZER\<close>; otherwise the header is \<open>AMBIENT\<close>. The empty string gets the
  default, and a code that contains both \<open>STOWAGE\<close> and \<open>CHILLER\<close> is \<open>AMBIENT\<close>. The function
  is total: it has a value for every string.
\<close>

theorem zone_header_priority:
  "zone_header cv =
     (if (\<exists>p q. cv = p @ ''STOWAGE'' @ q) then ''AMBIENT''
      else if (\<exists>p q. cv = p @ ''CHILLER'' @ q) then ''CHILLED''
      else if (\<exists>p q. cv = p @ ''FROZEN'' @ q) then ''FREEZER''
      else ''AMBIENT'')
   \<and> zone_header [] = ''AMBIENT''
   \<and> ((\<exists>p q. cv = p @ ''STOWAGE'' @ q) \<and> (\<exists>p q. cv = p @ ''CHILLER'' @ q)
        \<longrightarrow> zone_header cv = ''AMBIENT'')"
proof -
  have "zone_header [] = ''AMBIENT''"
    by (simp add: zone_header_def)
  then show ?thesis
    using zone_header_cases [of cv] by simp
qed

theorem zone_header_priority_witness:
  "(\<exists>p q. ''STOWAGE-CHILLER-7'' = p @ ''STOWAGE'' @ q)
   \<and> (\<exists>p q. ''STOWAGE-CHILLER-7'' = p @ ''CHILLER'' @ q)
   \<and> zone_header ''STOWAGE-CHILLER-7'' = ''AMBIENT''"
proof -
  have "''STOWAGE-CHILLER-7'' = [] @ ''STOWAGE'' @ ''-CHILLER-7''"
    by simp
  then have a: "\<exists>p q. ''STOWAGE-CHILLER-7'' = p @ ''STOWAGE'' @ q"
    by blast
  have "''STOWAGE-CHILLER-7'' = ''STOWAGE-'' @ ''CHILLER'' @ ''-7''"
    by simp
  then have b: "\<exists>p q. ''STOWAGE-CHILLER-7'' = p @ ''CHILLER'' @ q"
    by blast
  from a b zone_header_priority [of "''STOWAGE-CHILLER-7''"]
  have "zone_header ''STOWAGE-CHILLER-7'' = ''AMBIENT''"
    by blast
  with a b show ?thesis by blast
qed

text \<open>
  Claim C10. The zone test is case-sensitive: a code that holds none of the three upper-case
  words gets the default header \<open>AMBIENT\<close>, so \<open>chiller\<close> and \<open>Frozen\<close> are \<open>AMBIENT\<close> where
  \<open>CHILLER\<close> and \<open>FROZEN\<close> are not. The colour lookup differs: it looks up the lower-cased
  name, so a name matches whenever its lower-cased form is a key of the table.
\<close>

theorem zone_header_case_sensitive:
  "(\<not> (\<exists>p q. cv = p @ ''STOWAGE'' @ q) \<and> \<not> (\<exists>p q. cv = p @ ''CHILLER'' @ q)
      \<and> \<not> (\<exists>p q. cv = p @ ''FROZEN'' @ q) \<longrightarrow> zone_header cv = ''AMBIENT'')
   \<and> zone_header ''chiller'' = ''AMBIENT'' \<and> zone_header ''Frozen'' = ''AMBIENT''
   \<and> zone_header ''CHILLER'' = ''CHILLED'' \<and> zone_header ''FROZEN'' = ''FREEZER''
   \<and> (map_of color_dict (str_lower E name) = Some c \<longrightarrow> get_background_color E name = c)"
proof -
  have "zone_header ''chiller'' = ''AMBIENT''" "zone_header ''Frozen'' = ''AMBIENT''"
    "zone_header ''CHILLER'' = ''CHILLED''" "zone_header ''FROZEN'' = ''FREEZER''"
    by (simp_all add: zone_header_def)
  moreover have "map_of color_dict (str_lower E name) = Some c \<longrightarrow> get_background_color E name = c"
    by (simp add: get_background_color_def)
  ultimately show ?thesis
    using zone_header_cases [of cv] by simp
qed

theorem zone_header_case_sensitive_witness:
  "\<not> (\<exists>p q. ''Chiller-frozen'' = p @ ''STOWAGE'' @ q)
   \<and> \<not> (\<exists>p q. ''Chiller-frozen'' = p @ ''CHILLER'' @ q)
   \<and> \<not> (\<exists>p q. ''Chiller-frozen'' = p @ ''FROZEN'' @ q)
   \<and> zone_header ''Chiller-frozen'' = ''AMBIENT''
   \<and> map_of color_dict (str_lower (env_ok []) ''RED'') = Some Red
   \<and> get_background_color (env_ok []) ''RED'' = Red"
proof -
  have a: "\<not> (\<exists>p q. ''Chiller-frozen'' = p @ ''STOWAGE'' @ q)"
    unfolding str_in_iff [symmetric] by simp
  have b: "\<not> (\<exists>p q. ''Chiller-frozen'' = p @ ''CHILLER'' @ q)"
    unfolding str_in_iff [symmetric] by simp
  have c: "\<not> (\<exists>p q. ''Chiller-frozen'' = p @ ''FROZEN'' @ q)"
    unfolding str_in_iff [symmetric] by simp
  have d: "map_of color_dict (str_lower (env_ok []) ''RED'') = Some Red"
    by (simp add: env_ok_def color_dict_def ascii_lower_def lower_char_def)
  note t = zone_header_case_sensitive [of "''Chiller-frozen''" "env_ok []" "''RED''" Red]
  from t a b c have "zone_header ''Chiller-frozen'' = ''AMBIENT''"
    by blast
  moreover from t d have "get_background_color (env_ok []) ''RED'' = Red"
    by blast
  ultimately show ?thesis
    using a b c d by blast
qed

section \<open>Background colour\<close>

text \<open>
  Claim C6. A colour name that the lookup does not find in the table (the lookup is made
  with the lower-cased name) resolves to white, with no error: \<open>get_background_color\<close> always
  returns a colour. Such a name, \<open>turquoise\<close> for one, resolves to the same colour as the
  name \<open>white\<close>.
\<close>

theorem unrecognized_color_is_white:
  "(str_lower E name \<notin> set (map fst color_dict) \<longrightarrow> get_background_color E name = White)
   \<and> (str_lower E name \<notin> set (map fst color_dict) \<and> str_lower E ''white'' = ''white''
        \<longrightarrow> get_background_color E name = get_background_color E ''white'')
   \<and> (str_lower E ''turquoise'' = ''turquoise'' \<and> str_lower E ''white'' = ''white''
        \<longrightarrow> get_background_color E ''turquoise'' = get_background_color E ''white'')"
proof -
  have miss: "get_background_color E n = White" if "str_lower E n \<notin> set (map fst color_dict)" for n
  proof -
    from that have "map_of color_dict (str_lower E n) = None"
      by (simp add: map_of_eq_None_iff)
    then show ?thesis
      by (simp add: get_background_color_def)
  qed
  have white: "get_background_color E ''white'' = White" if "str_lower E ''white'' = ''white''"
    using that by (simp add: get_background_color_def color_dict_def)
  have turq: "get_background_color E ''turquoise'' = White" if "str_lower E ''turquoise'' = ''turquoise''"
    using that by (simp add: get_background_color_def color_dict_def)
  from miss [of name] white turq show ?thesis
    by simp
qed

theorem unrecognized_color_is_white_witness:
  "str_lower (env_ok []) ''Turquoise'' \<notin> set (map fst color_dict)
   \<and> str_lower (env_ok []) ''white'' = ''white''
   \<and> str_lower (env_ok []) ''turquoise'' = ''turquoise''
   \<and> get_background_color (env_ok []) ''Turquoise'' = White
   \<and> get_background_color (env_ok []) ''Turquoise'' = get_background_color (env_ok []) ''white''
   \<and> get_background_color (env_ok []) ''turquoise'' = get_background_color (env_ok []) ''white''"
proof -
  have a: "str_lower (env_ok []) ''Turquoise'' \<notin> set (map fst color_dict)"
    by (simp add: env_ok_def color_dict_def ascii_lower_def lower_char_def)
  have b: "str_lower (env_ok []) ''white'' = ''white''"
    by (simp add: env_ok_def ascii_lower_def lower_char_def)
  have c: "str_lower (env_ok []) ''turquoise'' = ''turquoise''"
    by (simp add: env_ok_def ascii_lower_def lower_char_def)
  note t = unrecognized_color_is_white [of "env_ok []" "''Turquoise''"]
  from t a b c show ?thesis
    by blast
qed

section \<open>Reading the table\<close>

text \<open>
  Claim C7. A path that ends in none of \<open>.csv\<close>, \<open>.xlsx\<close>, \<open>.xls\<close> makes \<open>read_data\<close> fail with
  the unsupported-format error, and \<open>generate_labels\<close> then stops with that error in the
  world it started in: no canvas has been created, no file written, nothing printed. A path
  that ends in one of the three suffixes never gets that error from \<open>read_data\<close> (the reader
  itself may still fail, with its own error).
\<close>

theorem unsupported_format_before_rendering:
  "(\<not> (\<exists>p. file_path = p @ ''.csv'') \<and> \<not> (\<exists>p. file_path = p @ ''.xlsx'')
      \<and> \<not> (\<exists>p. file_path = p @ ''.xls'')
      \<longrightarrow> read_data E file_path = Inl UnsupportedFormat
          \<and> generate_labels E g file_path output_pdf w = (Inl UnsupportedFormat, w))
   \<and> ((\<exists>p. file_path = p @ ''.csv'') \<or> (\<exists>p. file_path = p @ ''.xlsx'')
      \<or> (\<exists>p. file_path = p @ ''.xls'')
      \<longrightarrow> read_data E file_path \<noteq> Inl UnsupportedFormat)"
proof -
  have bad: "read_data E file_path = Inl UnsupportedFormat"
    if "\<not> endswith file_path ''.csv''" "\<not> endswith file_path ''.xlsx''"
       "\<not> endswith file_path ''.xls''"
    using that by (simp add: read_data_def)
  have gen: "generate_labels E g file_path output_pdf w = (Inl UnsupportedFormat, w)"
    if "read_data E file_path = Inl UnsupportedFormat"
    using that by (simp add: generate_labels_def)
  have good: "read_data E file_path \<noteq> Inl UnsupportedFormat"
    if "endswith file_path ''.csv'' \<or> endswith file_path ''.xlsx'' \<or> endswith file_path ''.xls''"
    using that by (auto simp: read_data_def split: option.splits)
  from bad gen good show ?thesis
    unfolding endswith_iff by blast
qed

theorem unsupported_format_before_rendering_witness:
  "\<not> (\<exists>p. ''labels.txt'' = p @ ''.csv'') \<and> \<not> (\<exists>p. ''labels.txt'' = p @ ''.xlsx'')
   \<and> \<not> (\<exists>p. ''labels.txt'' = p @ ''.xls'')
   \<and> generate_labels (env_ok table_abc) default_generator ''labels.txt'' ''labels.pdf'' empty_world
       = (Inl UnsupportedFormat, empty_world)
   \<and> (\<exists>p. ''labels.xlsx'' = p @ ''.xlsx'')
   \<and> read_data (env_ok table_abc) ''labels.xlsx'' \<noteq> Inl UnsupportedFormat"
proof -
  have a: "\<not> (\<exists>p. ''labels.txt'' = p @ ''.csv'')"
    unfolding endswith_iff [symmetric] by (simp add: endswith_def)
  have b: "\<not> (\<exists>p. ''labels.txt'' = p @ ''.xlsx'')"
    unfolding endswith_iff [symmetric] by (simp add: endswith_def)
  have c: "\<not> (\<exists>p. ''labels.txt'' = p @ ''.xls'')"
    unfolding endswith_iff [symmetric] by (simp add: endswith_def)
  have d: "\<exists>p. ''labels.xlsx'' = p @ ''.xlsx''"
    unfolding endswith_iff [symmetric] by (simp add: endswith_def)
  from a b c
    unsupported_format_before_rendering
      [of "''labels.txt''" "env_ok table_abc" default_generator "''labels.pdf''" empty_world]
  have e: "generate_labels (env_ok table_abc) default_generator ''labels.txt'' ''labels.pdf'' empty_world
       = (Inl UnsupportedFormat, empty_world)"
    by blast
  from d unsupported_format_before_rendering [of "''labels.xlsx''" "env_ok table_abc"]
  have f: "read_data (env_ok table_abc) ''labels.xlsx'' \<noteq> Inl UnsupportedFormat"
    by blast
  from a b c d e f show ?thesis by blast
qed

section \<open>The temporary image file\<close>

text \<open>
  What \<open>draw_label\<close> does to the files on disk, on each of its exit paths: the temporary file
  is removed on the normal return, was never written when an earlier call raised, and stays
  on disk when \<open>canvas.drawImage\<close> raises, since the removal (lines 225 and 226) comes after
  that call and is not in a \<open>finally\<close> block.
\<close>

lemma draw_label_files:
  assumes "draw_label E g x y r w = (res, w')"
  shows "files w' = (if res = Inl DrawImageError then insert (temp_qr_file r) (files w)
                     else if res = Inr () then files w - {temp_qr_file r} else files w)"
  using assms
  by (auto simp: draw_label_def emit_def Let_def split: list.splits cell.splits if_splits)

text \<open>
  Claim C8. The claim is that the temporary image file is released on every exit path of
  the render call, also when placing the image raises. The code does not do so: for the
  record \<open>rec_a\<close> in an environment where \<open>canvas.drawImage\<close> raises, \<open>draw_label\<close> ends with
  that error and the file \<open>temp_qr_A12_B3.png\<close>, which did not exist before the call, is
  left on disk.
\<close>

theorem temp_file_left_when_drawImage_raises:
  "fst (draw_label (env_bad_image []) default_generator 0 0 rec_a empty_world) = Inl DrawImageError
   \<and> ''temp_qr_A12_B3.png'' \<notin> files empty_world
   \<and> ''temp_qr_A12_B3.png'' \<in> files (snd (draw_label (env_bad_image []) default_generator 0 0 rec_a empty_world))"
  by (simp add: draw_label_def env_bad_image_def env_ok_def default_generator_def rec_a_def
      empty_world_def temp_qr_file_def emit_def Let_def)

section \<open>Placement on the page\<close>

lemma grid_position_ok:
  assumes "columns cfg * rows cfg \<noteq> 0"
  shows "grid_position cfg idx =
     Inr \<lparr>row_num = (idx mod (columns cfg * rows cfg)) div columns cfg,
          col_num = (idx mod (columns cfg * rows cfg)) mod columns cfg,
          label_x = left_margin cfg
            + of_int ((idx mod (columns cfg * rows cfg)) mod columns cfg) * (label_width cfg + h_gap cfg),
          label_y = page_height cfg - top_margin cfg
            - of_int ((idx mod (columns cfg * rows cfg)) div columns cfg + 1) * label_height cfg
            - of_int ((idx mod (columns cfg * rows cfg)) div columns cfg) * v_gap cfg\<rparr>"
  using assms by (auto simp: grid_position_def Let_def)

lemma cell_in_grid:
  fixes c r pos :: int
  assumes "0 < c" "0 \<le> pos" "pos < c * r"
  shows "0 \<le> pos div c \<and> pos div c < r \<and> 0 \<le> pos mod c \<and> pos mod c < c
         \<and> pos = (pos div c) * c + pos mod c"
proof -
  have d0: "0 \<le> pos div c"
    using assms by (simp add: pos_imp_zdiv_nonneg_iff)
  have m: "0 \<le> pos mod c" "pos mod c < c"
    using assms by simp_all
  have split: "pos = (pos div c) * c + pos mod c"
    by simp
  have "pos div c < r"
  proof (rule ccontr)
    assume "\<not> pos div c < r"
    then have "r \<le> pos div c" by simp
    then have "c * r \<le> c * (pos div c)"
      using assms(1) by (simp add: mult_left_mono)
    also have "\<dots> \<le> pos"
    proof -
      have "c * (pos div c) + pos mod c = pos" by simp
      with m(1) show ?thesis by linarith
    qed
    finally show False using assms(3) by simp
  qed
  with d0 m split show ?thesis by blast
qed

lemma label_y_by_row:
  assumes "grid_position cfg idx = Inr p"
  shows "label_y p = page_height cfg - top_margin cfg - label_height cfg
                     - of_int (row_num p) * (label_height cfg + v_gap cfg)"
  using assms
  by (auto simp: grid_position_def Let_def algebra_simps split: if_splits)

text \<open>
  Claim C2, as amended. For every label index and every config with \<open>columns * rows \<noteq> 0\<close> the
  label is placed at \<open>row_num = (index mod labels_per_page) div columns\<close>,
  \<open>col_num = (index mod labels_per_page) mod columns\<close>, with lower-left corner
  \<open>x = left_margin + col_num * (label_width + h_gap)\<close> and
  \<open>y = page_height - top_margin - (row_num + 1) * label_height - row_num * v_gap\<close>. When
  \<open>columns > 0\<close> and \<open>rows > 0\<close> the cell lies in the grid, \<open>0 \<le> row_num < rows\<close> and
  \<open>0 \<le> col_num < columns\<close>, and the position on the page is \<open>row_num * columns + col_num\<close>
  (row-major). When moreover \<open>label_height \<ge> 0\<close> and \<open>v_gap \<ge> 0\<close>, row 0 is the topmost row:
  no label lies above the labels of row 0, whose \<open>y\<close> is
  \<open>page_height - top_margin - label_height\<close>.
\<close>

theorem grid_position_row_major:
  assumes "columns cfg * rows cfg \<noteq> 0"
  shows "\<exists>p. grid_position cfg idx = Inr p
     \<and> row_num p = (idx mod (columns cfg * rows cfg)) div columns cfg
     \<and> col_num p = (idx mod (columns cfg * rows cfg)) mod columns cfg
     \<and> label_x p = left_margin cfg + of_int (col_num p) * (label_width cfg + h_gap cfg)
     \<and> label_y p = page_height cfg - top_margin cfg
                    - of_int (row_num p + 1) * label_height cfg - of_int (row_num p) * v_gap cfg
     \<and> (0 < columns cfg \<and> 0 < rows cfg
          \<longrightarrow> 0 \<le> row_num p \<and> row_num p < rows cfg \<and> 0 \<le> col_num p \<and> col_num p < columns cfg
              \<and> idx mod (columns cfg * rows cfg) = row_num p * columns cfg + col_num p)
     \<and> (0 < columns cfg \<and> 0 < rows cfg \<and> 0 \<le> label_height cfg \<and> 0 \<le> v_gap cfg
          \<longrightarrow> label_y p \<le> page_height cfg - top_margin cfg - label_height cfg
              \<and> (row_num p = 0 \<longrightarrow> label_y p = page_height cfg - top_margin cfg - label_height cfg))"
proof -
  define pos where "pos = idx mod (columns cfg * rows cfg)"
  define p where "p = \<lparr>row_num = pos div columns cfg, col_num = pos mod columns cfg,
    label_x = left_margin cfg + of_int (pos mod columns cfg) * (label_width cfg + h_gap cfg),
    label_y = page_height cfg - top_margin cfg
              - of_int (pos div columns cfg + 1) * label_height cfg
              - of_int (pos div columns cfg) * v_gap cfg\<rparr>"
  have gp: "grid_position cfg idx = Inr p"
    using grid_position_ok [OF assms, of idx] by (simp add: p_def pos_def)
  have sel: "row_num p = pos div columns cfg" "col_num p = pos mod columns cfg"
    "label_x p = left_margin cfg + of_int (col_num p) * (label_width cfg + h_gap cfg)"
    "label_y p = page_height cfg - top_margin cfg
                 - of_int (row_num p + 1) * label_height cfg - of_int (row_num p) * v_gap cfg"
    by (simp_all add: p_def)
  have cell: "0 \<le> row_num p \<and> row_num p < rows cfg \<and> 0 \<le> col_num p \<and> col_num p < columns cfg
              \<and> idx mod (columns cfg * rows cfg) = row_num p * columns cfg + col_num p"
    if "0 < columns cfg" "0 < rows cfg"
  proof -
    have "0 < columns cfg * rows cfg"
      using that by simp
    then have "0 \<le> pos" "pos < columns cfg * rows cfg"
      by (simp_all add: pos_def)
    from cell_in_grid [OF that(1) this] show ?thesis
      by (simp add: sel(1,2) pos_def)
  qed
  have top: "label_y p \<le> page_height cfg - top_margin cfg - label_height cfg
             \<and> (row_num p = 0 \<longrightarrow> label_y p = page_height cfg - top_margin cfg - label_height cfg)"
    if "0 < columns cfg" "0 < rows cfg" "0 \<le> label_height cfg" "0 \<le> v_gap cfg"
  proof -
    from cell [OF that(1,2)] have "0 \<le> row_num p" by simp
    then have "0 \<le> real_of_int (row_num p) * (label_height cfg + v_gap cfg)"
      using that(3,4) by simp
    then show ?thesis
      using label_y_by_row [OF gp] by auto
  qed
  from gp sel cell top show ?thesis
    unfolding pos_def by blast
qed

theorem grid_position_row_major_witness:
  "columns default_config * rows default_config \<noteq> 0
   \<and> 0 < columns default_config \<and> 0 < rows default_config
   \<and> 0 \<le> label_height default_config \<and> 0 \<le> v_gap default_config
   \<and> grid_position default_config 34
       = Inr \<lparr>row_num = 1, col_num = 1, label_x = 211.68, label_y = 612\<rparr>
   \<and> (612::real) \<le> page_height default_config - top_margin default_config - label_height default_config"
proof -
  have a: "columns default_config * rows default_config \<noteq> 0"
    by (simp add: default_config_def)
  have b: "0 < columns default_config" "0 < rows default_config"
    "0 \<le> label_height default_config" "0 \<le> v_gap default_config"
    by (simp_all add: default_config_def inch_def)
  from grid_position_row_major [OF a, of 34]
  obtain p where p: "grid_position default_config 34 = Inr p"
    and r: "row_num p = (34 mod (columns default_config * rows default_config)) div columns default_config"
    and c: "col_num p = (34 mod (columns default_config * rows default_config)) mod columns default_config"
    and x: "label_x p = left_margin default_config
              + of_int (col_num p) * (label_width default_config + h_gap default_config)"
    and y: "label_y p = page_height default_config - top_margin default_config
              - of_int (row_num p + 1) * label_height default_config
              - of_int (row_num p) * v_gap default_config"
    and t: "0 < columns default_config \<and> 0 < rows default_config
              \<and> 0 \<le> label_height default_config \<and> 0 \<le> v_gap default_config
            \<longrightarrow> label_y p \<le> page_height default_config - top_margin default_config
                              - label_height default_config"
    by blast
  have r': "row_num p = 1" and c': "col_num p = 1"
    using r c by (simp_all add: default_config_def)
  have xy: "label_x p = 211.68" "label_y p = 612"
    using x y unfolding r' c' by (simp_all add: default_config_def inch_def)
  with r' c' have "p = \<lparr>row_num = 1, col_num = 1, label_x = 211.68, label_y = 612\<rparr>"
    by simp
  moreover from t b xy(2)
  have "(612::real) \<le> page_height default_config - top_margin default_config
                        - label_height default_config"
    by simp
  ultimately show ?thesis
    using a b p by simp
qed

text \<open>
  The claim as stated, for every config, fails in three ways. Where \<open>columns * rows = 0\<close> the
  first \<open>idx % labels_per_page\<close> raises \<open>ZeroDivisionError\<close> and no label is placed. With a
  negative label height (here \<open>-72\<close>) row 1 lies above row 0. With a negative number of rows
  (here \<open>-10\<close>) the label of index 1 is in row \<open>-10\<close>, far above the page. (The program does
  not validate its config.)
\<close>

theorem grid_position_claim_fails:
  "grid_position (default_config\<lparr>rows := 0\<rparr>) 0 = Inl ZeroDivisionError
   \<and> grid_position (default_config\<lparr>label_height := - 72\<rparr>) 0
       = Inr \<lparr>row_num = 0, col_num = 0, label_x = 13.68, label_y = 828\<rparr>
   \<and> grid_position (default_config\<lparr>label_height := - 72\<rparr>) 3
       = Inr \<lparr>row_num = 1, col_num = 0, label_x = 13.68, label_y = 900\<rparr>
   \<and> grid_position (default_config\<lparr>rows := - 10\<rparr>) 1
       = Inr \<lparr>row_num = - 10, col_num = 1, label_x = 211.68, label_y = 1404\<rparr>"
  by (simp add: grid_position_def default_config_def inch_def)

section \<open>A run on three records, two labels per page\<close>

lemmas run_defs = generate_labels_def read_data_def endswith_def env_ok_def small_generator_def
  default_generator_def default_config_def inch_def empty_world_def new_canvas_def save_canvas_def
  emit_def showPage_def grid_position_def draw_label_def temp_qr_file_def rec_a_def rec_b_def
  reported_pages_def row_fields_def row_of_def default_index_def table_abc_def upt_rec Let_def

lemma small_run_ok:
  "fst (generate_labels (env_ok table_abc) small_generator ''labels.csv'' ''labels.pdf''
          empty_world) = Inr ()"
  by (simp add: run_defs)

lemma small_run_read:
  "read_data (env_ok table_abc) ''labels.csv'' = Inr table_abc"
  by (simp add: read_data_def endswith_def env_ok_def)

lemma length_table_abc: "length table_abc = 3"
  by (simp add: table_abc_def default_index_def)

section \<open>The reported page count\<close>

lemma div_pred:
  fixes t l :: int
  assumes "0 < l"
  shows "(t - 1) div l = (if t mod l = 0 then t div l - 1 else t div l)"
proof (cases "t mod l = 0")
  case True
  have "t = l * (t div l)"
    using True by (metis mult_div_mod_eq add.right_neutral)
  then have "t - 1 = l * (t div l - 1) + (l - 1)"
    by (simp add: algebra_simps)
  then have "(t - 1) div l = t div l - 1"
    using assms by (intro int_div_pos_eq [where r = "l - 1"]) auto
  with True show ?thesis by simp
next
  case False
  have "0 \<le> t mod l" "t mod l < l"
    using assms by simp_all
  with False have pos: "0 < t mod l" "t mod l < l"
    by linarith+
  have "t - 1 = l * (t div l) + (t mod l - 1)"
    by simp
  then have "(t - 1) div l = t div l"
    using assms pos by (intro int_div_pos_eq [where r = "t mod l - 1"]) auto
  with False show ?thesis by simp
qed

lemma ceil_pages:
  fixes t l :: int
  assumes "0 < l"
  shows "(t - 1) div l + 1 = \<lceil>real_of_int t / real_of_int l\<rceil>"
proof -
  have "\<lceil>real_of_int t / real_of_int l\<rceil> = - ((- t) div l)"
    by (rule ceiling_divide_eq_div)
  also have "\<dots> = (t - 1) div l + 1"
    using assms by (simp add: div_pred zdiv_zminus1_eq_if)
  finally show ?thesis by simp
qed

lemma generate_labels_summary:
  assumes "generate_labels E g data_file output_pdf w = (Inr (), w')"
  shows "\<exists>df pages. read_data E data_file = Inr df
     \<and> reported_pages (int (length df)) (columns (config g) * rows (config g)) = Inr pages
     \<and> stdout w' \<noteq> [] \<and> last (stdout w') = Summary output_pdf (int (length df)) pages"
  using assms
  by (auto simp: generate_labels_def Let_def split: sum.splits prod.splits if_splits)

text \<open>
  Claim C4. With a positive number of labels per page, the page count in the summary is
  \<open>\<lceil>total / labels_per_page\<rceil>\<close>, computed as \<open>(total - 1) div labels_per_page + 1\<close>; it is 0 for
  an empty table. With 30 labels per page: 0 records give 0 pages, 1 gives 1, 30 give 1 and
  31 give 2. A run of \<open>generate_labels\<close> that returns normally has printed, as its last line,
  the summary with the number of records read and that page count.
\<close>

theorem reported_page_count:
  "(0 < labels_per_page
      \<longrightarrow> reported_pages total_labels labels_per_page
            = Inr \<lceil>real_of_int total_labels / real_of_int labels_per_page\<rceil>)
   \<and> (0 < labels_per_page \<and> 1 \<le> total_labels
      \<longrightarrow> reported_pages total_labels labels_per_page = Inr ((total_labels - 1) div labels_per_page + 1))
   \<and> (0 < labels_per_page \<longrightarrow> reported_pages 0 labels_per_page = Inr 0)
   \<and> reported_pages 0 30 = Inr 0 \<and> reported_pages 1 30 = Inr 1
   \<and> reported_pages 30 30 = Inr 1 \<and> reported_pages 31 30 = Inr 2
   \<and> (0 < columns (config g) * rows (config g)
        \<and> generate_labels E g data_file output_pdf w = (Inr (), w')
      \<longrightarrow> (\<exists>records. read_data E data_file = Inr records
            \<and> last (stdout w') =
                Summary output_pdf (int (length records))
                  \<lceil>real (length records) / real_of_int (columns (config g) * rows (config g))\<rceil>))"
proof -
  have general: "reported_pages t l = Inr \<lceil>real_of_int t / real_of_int l\<rceil>" if "0 < l" for t l
    using that ceil_pages [OF that, of t] by (simp add: reported_pages_def)
  have formula: "reported_pages t l = Inr ((t - 1) div l + 1)" if "0 < l" for t l
    using that by (simp add: reported_pages_def)
  have empty: "reported_pages 0 l = Inr 0" if "0 < l" for l
    using general [OF that, of 0] by simp
  have examples: "reported_pages 0 30 = Inr 0" "reported_pages 1 30 = Inr 1"
    "reported_pages 30 30 = Inr 1" "reported_pages 31 30 = Inr 2"
    by (simp_all add: reported_pages_def)
  have run: "\<exists>records. read_data E data_file = Inr records
            \<and> last (stdout w') =
                Summary output_pdf (int (length records))
                  \<lceil>real (length records) / real_of_int (columns (config g) * rows (config g))\<rceil>"
    if pos: "0 < columns (config g) * rows (config g)"
      and ok: "generate_labels E g data_file output_pdf w = (Inr (), w')"
  proof -
    from generate_labels_summary [OF ok] obtain df pages
      where df: "read_data E data_file = Inr df"
        and pg: "reported_pages (int (length df)) (columns (config g) * rows (config g)) = Inr pages"
        and l: "last (stdout w') = Summary output_pdf (int (length df)) pages"
      by blast
    from pg general [OF pos, of "int (length df)"]
    have "pages = \<lceil>real (length df) / real_of_int (columns (config g) * rows (config g))\<rceil>"
      by simp
    with df l show ?thesis by blast
  qed
  from general [of labels_per_page total_labels] formula [of labels_per_page total_labels]
    empty [of labels_per_page] examples run
  show ?thesis by blast
qed

theorem reported_page_count_witness:
  "(0::int) < 30 \<and> (1::int) \<le> 31
   \<and> reported_pages 31 30 = Inr \<lceil>real_of_int 31 / real_of_int 30\<rceil>
   \<and> reported_pages 31 30 = Inr ((31 - 1) div 30 + 1)
   \<and> 0 < columns (config small_generator) * rows (config small_generator)
   \<and> fst (generate_labels (env_ok table_abc) small_generator ''labels.csv''
            ''labels.pdf'' empty_world) = Inr ()
   \<and> last (stdout (snd (generate_labels (env_ok table_abc) small_generator
                          ''labels.csv'' ''labels.pdf'' empty_world)))
       = Summary ''labels.pdf'' 3 2"
proof -
  let ?run = "generate_labels (env_ok table_abc) small_generator ''labels.csv''
    ''labels.pdf'' empty_world"
  note t = reported_page_count [of 30 31 small_generator "env_ok table_abc"
      "''labels.csv''" "''labels.pdf''" empty_world "snd ?run"]
  have a: "(0::int) < 30" and b: "(1::int) \<le> 31"
    by simp_all
  have c: "0 < columns (config small_generator) * rows (config small_generator)"
    by (simp add: small_generator_def)
  have d: "?run = (Inr (), snd ?run)"
    using small_run_ok by (simp add: prod_eq_iff)
  from t a have e: "reported_pages 31 30 = Inr \<lceil>real_of_int 31 / real_of_int 30\<rceil>"
    by blast
  from t a b have f: "reported_pages 31 30 = Inr ((31 - 1) div 30 + 1)"
    by blast
  from t c d obtain records where r: "read_data (env_ok table_abc) ''labels.csv'' = Inr records"
    and l: "last (stdout (snd ?run)) = Summary ''labels.pdf'' (int (length records))
       \<lceil>real (length records) / real_of_int (columns (config small_generator) * rows (config small_generator))\<rceil>"
    by blast
  from r small_run_read have "records = table_abc"
    by simp
  with l length_table_abc have "last (stdout (snd ?run)) = Summary ''labels.pdf'' 3 2"
    by (simp add: small_generator_def)
  with a b c e f small_run_ok show ?thesis
    by blast
qed

section \<open>The loop over the rows\<close>

text \<open>
  Whatever the result of \<open>draw_label\<close>, it leaves the page counter alone and draws at most one
  border rectangle, at the corner it was given, on the current page.
\<close>

lemma placements_append: "placements (xs @ ys) = placements xs @ placements ys"
  by (simp add: placements_def List.map_filter_def)





lemma length_expected_placements:
  "length (expected_placements cfg pg idxs) \<le> length idxs"
  by (induction idxs arbitrary: pg) (auto simp: Let_def split: sum.splits)





section \<open>The placements of a whole run\<close>





section \<open>The cells of the grid\<close>






section \<open>Pages and corners of a run\<close>



lemma default_index_labels: "map fst (default_index rs) = map int [0..<length (default_index rs)]"
  by (simp add: default_index_def)






lemma table_bbba_labels: "map fst table_bbba = map int [0..<length table_bbba]"
  unfolding table_bbba_def by (rule default_index_labels)









section \<open>Section widths\<close>

text \<open>
  In exact arithmetic the section widths of \<open>__init__\<close> are \<open>label_width * ratio / total\<close> and
  add up to the label width whenever the ratios do not add up to zero; the default config
  gives 47.25, 94.5 and 47.25 points. What rounding does to these sums in floating point is
  outside this model.
\<close>

lemma init_default_config: "init default_config = Inr default_generator"
  by (simp add: init_def default_config_def default_generator_def inch_def)

lemma init_section_widths_sum:
  assumes "sum_list (section_ratios cfg) \<noteq> 0"
  shows "\<exists>g. init cfg = Inr g \<and> config g = cfg
           \<and> section_widths g
               = map (\<lambda>ratio. label_width cfg * ratio / sum_list (section_ratios cfg)) (section_ratios cfg)
           \<and> sum_list (section_widths g) = label_width cfg"
proof -
  define t where "t = sum_list (section_ratios cfg)"
  define g where "g = \<lparr>config = cfg,
    section_widths = map (\<lambda>ratio. ratio / t * label_width cfg) (section_ratios cfg)\<rparr>"
  have i: "init cfg = Inr g"
    using assms by (simp add: init_def g_def t_def)
  have w: "section_widths g = map (\<lambda>ratio. label_width cfg * ratio / t) (section_ratios cfg)"
    by (simp add: g_def mult.commute)
  have "sum_list (section_widths g) = sum_list (map (\<lambda>ratio. ratio * (label_width cfg / t)) (section_ratios cfg))"
    by (simp add: g_def)
  also have "\<dots> = sum_list (section_ratios cfg) * (label_width cfg / t)"
    using sum_list_mult_const [of "\<lambda>ratio. ratio" "label_width cfg / t" "section_ratios cfg"]
    by simp
  also have "\<dots> = label_width cfg"
    using assms by (simp add: t_def)
  finally have "sum_list (section_widths g) = label_width cfg" .
  with i w show ?thesis
    by (auto simp: g_def t_def)
qed

end
